theory Spec2Isabelle
  imports Complex_Main
begin

section \<open>JavaScript values\<close>

text \<open>
  The front end handles values that come out of \<^verbatim>\<open>JSON.parse\<close> and tests them with
  JavaScript truthiness. Numbers are IEEE doubles in the browser; here a finite number is an
  exact rational, next to the special values the arithmetic of \<^verbatim>\<open>displayGrades\<close> can
  produce (\<^verbatim>\<open>NaN\<close>, the infinities and the negative zero).
\<close>

datatype jsnum = NaN | PInf | NInf | NZero | Fin rat

datatype jsval =
    JUndefined
  | JNull
  | JBool bool
  | JNum jsnum
  | JStr string
  | JArr "jsval list"
  | JObj "(string \<times> jsval) list"

text \<open>Errors a promise can reject with in this code.\<close>

datatype js_error =
    Error string            \<comment> \<open>\<^verbatim>\<open>throw new Error(message)\<close>\<close>
  | FetchFailed string      \<comment> \<open>\<^verbatim>\<open>fetch\<close> rejected: no response at all; the engine's message\<close>
  | JsonRejected string     \<comment> \<open>\<^verbatim>\<open>response.json()\<close> rejected: body absent or not JSON\<close>
  | NullDeref jsval string  \<comment> \<open>TypeError: property read on \<^verbatim>\<open>null\<close> or \<^verbatim>\<open>undefined\<close>\<close>
  | NullAssign string       \<comment> \<open>TypeError: property write on \<^verbatim>\<open>null\<close>\<close>
  | NotAFunction string     \<comment> \<open>TypeError: call of a property that is not a function\<close>

fun num_truthy :: "jsnum \<Rightarrow> bool" where
  "num_truthy NaN = False"
| "num_truthy NZero = False"
| "num_truthy (Fin r) = (r \<noteq> 0)"
| "num_truthy PInf = True"
| "num_truthy NInf = True"

text \<open>ToBoolean.\<close>

fun truthy :: "jsval \<Rightarrow> bool" where
  "truthy JUndefined = False"
| "truthy JNull = False"
| "truthy (JBool b) = b"
| "truthy (JNum n) = num_truthy n"
| "truthy (JStr s) = (s \<noteq> [])"
| "truthy (JArr _) = True"
| "truthy (JObj _) = True"

text \<open>\<^verbatim>\<open>a || b\<close> on values.\<close>

definition js_or :: "jsval \<Rightarrow> jsval \<Rightarrow> jsval" where
  "js_or a b = (if truthy a then a else b)"

text \<open>
  The property read \<^verbatim>\<open>v.k\<close>, for the keys this code reads (none of them lives on a
  prototype, \<^verbatim>\<open>length\<close> of arrays and strings apart): a TypeError on \<^verbatim>\<open>null\<close> and
  \<^verbatim>\<open>undefined\<close>, \<^verbatim>\<open>undefined\<close> where the key is missing.
\<close>

fun get_prop :: "jsval \<Rightarrow> string \<Rightarrow> js_error + jsval" where
  "get_prop JUndefined k = Inl (NullDeref JUndefined k)"
| "get_prop JNull k = Inl (NullDeref JNull k)"
| "get_prop (JObj kvs) k = Inr (case map_of kvs k of Some v \<Rightarrow> v | None \<Rightarrow> JUndefined)"
| "get_prop (JArr xs) k =
     Inr (if k = ''length'' then JNum (Fin (of_nat (length xs))) else JUndefined)"
| "get_prop (JStr s) k =
     Inr (if k = ''length'' then JNum (Fin (of_nat (length s))) else JUndefined)"
| "get_prop (JBool _) k = Inr JUndefined"
| "get_prop (JNum _) k = Inr JUndefined"

fun join_with :: "string \<Rightarrow> string list \<Rightarrow> string" where
  "join_with sep [] = []"
| "join_with sep [x] = x"
| "join_with sep (x # y # ys) = x @ sep @ join_with sep (y # ys)"

text \<open>
  ToString, as a template literal, \<^verbatim>\<open>new Error(v)\<close> and \<^verbatim>\<open>setItem\<close> apply it.
  \<open>nts\<close> is the runtime's Number-to-string conversion.
\<close>

fun to_string :: "(jsnum \<Rightarrow> string) \<Rightarrow> jsval \<Rightarrow> string" where
  "to_string nts JUndefined = ''undefined''"
| "to_string nts JNull = ''null''"
| "to_string nts (JBool b) = (if b then ''true'' else ''false'')"
| "to_string nts (JNum n) = nts n"
| "to_string nts (JStr s) = s"
| "to_string nts (JArr xs) =
     join_with '',''
       (map (\<lambda>x. if x = JNull \<or> x = JUndefined then [] else to_string nts x) xs)"
| "to_string nts (JObj _) = ''[object Object]''"

definition digit_char :: "nat \<Rightarrow> char" where
  "digit_char d = char_of (48 + d)"

fun show_nat :: "nat \<Rightarrow> string" where
  "show_nat n = (if n < 10 then [digit_char n] else show_nat (n div 10) @ [digit_char (n mod 10)])"

declare show_nat.simps [simp del]

section \<open>api-client.js\<close>

text \<open>
  Strings are lists of \<^typ>\<open>char\<close>; a character outside ASCII is written as its UTF-8
  bytes. The code modelled here only compares, concatenates and tests strings for emptiness.
\<close>

record api_client =
  accessToken :: jsval                     \<comment> \<open>\<^verbatim>\<open>this.accessToken\<close>\<close>
  sessionStorage :: "string \<rightharpoonup> string"     \<comment> \<open>the tab's \<^verbatim>\<open>sessionStorage\<close>\<close>

definition API_BASE_URL :: string where
  "API_BASE_URL = ''http://localhost:8000''"

definition AI_model :: string where
  "AI_model = ''deepseek/deepseek-r1:free''"

definition loadToken :: "(string \<rightharpoonup> string) \<Rightarrow> jsval" where
  "loadToken st = (case st ''access_token'' of None \<Rightarrow> JNull | Some t \<Rightarrow> JStr t)"

text \<open>The constructor: \<^verbatim>\<open>this.accessToken = this.loadToken()\<close>.\<close>

definition new_APIClient :: "(string \<rightharpoonup> string) \<Rightarrow> api_client" where
  "new_APIClient st = \<lparr>accessToken = loadToken st, sessionStorage = st\<rparr>"

definition saveToken :: "(jsnum \<Rightarrow> string) \<Rightarrow> jsval \<Rightarrow> api_client \<Rightarrow> api_client" where
  "saveToken nts token c =
     c\<lparr>sessionStorage := (sessionStorage c)(''access_token'' \<mapsto> to_string nts token),
       accessToken := token\<rparr>"

definition clearToken :: "api_client \<Rightarrow> api_client" where
  "clearToken c =
     c\<lparr>sessionStorage := (sessionStorage c)(''access_token'' := None), accessToken := JNull\<rparr>"

definition client_isAuthenticated :: "api_client \<Rightarrow> bool" where
  "client_isAuthenticated c = (\<not> \<not> truthy (accessToken c))"

text \<open>
  The \<^verbatim>\<open>options\<close> argument of \<^verbatim>\<open>request\<close> and the \<^verbatim>\<open>config\<close> handed to
  \<^verbatim>\<open>fetch\<close>. \<open>None\<close> is a property that is not set; \<open>body\<close> holds the value whose
  \<^verbatim>\<open>JSON.stringify\<close> text is sent. An object is an association list in insertion order.
\<close>

record req_options =
  opt_method :: "string option"
  opt_body :: "jsval option"
  opt_headers :: "(string \<times> string) list option"

record fetch_config =
  cfg_method :: "string option"
  cfg_body :: "jsval option"
  cfg_headers :: "(string \<times> string) list"

text \<open>Assignment \<^verbatim>\<open>o[k] = v\<close>: an existing key keeps its place, a new one goes last.\<close>

fun obj_set :: "(string \<times> 'v) list \<Rightarrow> string \<Rightarrow> 'v \<Rightarrow> (string \<times> 'v) list" where
  "obj_set [] k v = [(k, v)]"
| "obj_set ((k', v') # r) k v = (if k' = k then (k, v) # r else (k', v') # obj_set r k v)"

text \<open>The spread \<^verbatim>\<open>{...a, ...b}\<close>.\<close>

definition obj_spread :: "(string \<times> 'v) list \<Rightarrow> (string \<times> 'v) list \<Rightarrow> (string \<times> 'v) list" where
  "obj_spread a b = fold (\<lambda>(k, v) acc. obj_set acc k v) b a"

definition defaultHeaders :: "(jsnum \<Rightarrow> string) \<Rightarrow> api_client \<Rightarrow> (string \<times> string) list" where
  "defaultHeaders nts c =
     (let h = [(''Content-Type'', ''application/json'')]
      in if truthy (accessToken c)
         then obj_set h ''Authorization'' (''Bearer '' @ to_string nts (accessToken c))
         else h)"

definition request_config :: "(jsnum \<Rightarrow> string) \<Rightarrow> api_client \<Rightarrow> req_options \<Rightarrow> fetch_config" where
  "request_config nts c options =
     \<lparr>cfg_method = opt_method options,
      cfg_body = opt_body options,
      cfg_headers = obj_spread (defaultHeaders nts c)
                      (case opt_headers options of None \<Rightarrow> [] | Some h \<Rightarrow> h)\<rparr>"

text \<open>
  What \<^verbatim>\<open>fetch\<close> settles with: a rejection (no response at all) or a response, of which
  the code reads \<^verbatim>\<open>status\<close>, \<^verbatim>\<open>ok\<close> and \<^verbatim>\<open>json()\<close> (\<open>Inl\<close>: the promise rejects).
\<close>

record response =
  status :: nat
  json :: "string + jsval"

datatype fetch_outcome = NoResponse string | Responded response

type_synonym fetch = "string \<Rightarrow> fetch_config \<Rightarrow> fetch_outcome"

definition ok :: "response \<Rightarrow> bool" where
  "ok r = (200 \<le> status r \<and> status r \<le> 299)"

definition session_expired_message :: string where
  "session_expired_message =
     ''Session expir'' @ [CHR 0xC3, CHR 0xA9] @ ''e. Veuillez vous reconnecter.''"

definition http_error_message :: "nat \<Rightarrow> string" where
  "http_error_message st = ''Erreur HTTP '' @ show_nat st"

text \<open>
  \<^verbatim>\<open>errorData.detail || errorData.error || `Erreur HTTP ${response.status}`\<close>, evaluated
  left to right.
\<close>

definition error_text :: "jsval \<Rightarrow> nat \<Rightarrow> js_error + jsval" where
  "error_text errorData st =
     (case get_prop errorData ''detail'' of
        Inl e \<Rightarrow> Inl e
      | Inr detail \<Rightarrow>
          if truthy detail then Inr detail
          else (case get_prop errorData ''error'' of
                  Inl e \<Rightarrow> Inl e
                | Inr err \<Rightarrow> Inr (js_or err (JStr (http_error_message st)))))"

text \<open>
  \<^verbatim>\<open>request\<close>: the result is the value the promise resolves with (\<open>Inr\<close>) or the error it
  rejects with (\<open>Inl\<close>), next to the client after the call. The \<^verbatim>\<open>catch\<close> block logs and
  rethrows.
\<close>

definition request ::
  "(jsnum \<Rightarrow> string) \<Rightarrow> fetch \<Rightarrow> api_client \<Rightarrow> string \<Rightarrow> req_options
     \<Rightarrow> (js_error + jsval) \<times> api_client" where
  "request nts fetch c endpoint options =
     (let url = API_BASE_URL @ endpoint;
          config = request_config nts c options
      in case fetch url config of
           NoResponse m \<Rightarrow> (Inl (FetchFailed m), c)
         | Responded r \<Rightarrow>
             if status r = 401 then (Inl (Error session_expired_message), clearToken c)
             else if \<not> ok r then
               (let errorData = (case json r of Inl _ \<Rightarrow> JObj [] | Inr d \<Rightarrow> d)
                in case error_text errorData (status r) of
                     Inl e \<Rightarrow> (Inl e, c)
                   | Inr m \<Rightarrow> (Inl (Error (to_string nts m)), c))
             else (case json r of
                     Inl m \<Rightarrow> (Inl (JsonRejected m), c)
                   | Inr data \<Rightarrow> (Inr data, c)))"

definition no_options :: req_options where
  "no_options = \<lparr>opt_method = None, opt_body = None, opt_headers = None\<rparr>"

definition get ::
  "(jsnum \<Rightarrow> string) \<Rightarrow> fetch \<Rightarrow> api_client \<Rightarrow> string \<Rightarrow> (js_error + jsval) \<times> api_client" where
  "get nts fetch c endpoint = request nts fetch c endpoint (no_options\<lparr>opt_method := Some ''GET''\<rparr>)"

text \<open>\<^verbatim>\<open>JSON.stringify(undefined)\<close> is \<^verbatim>\<open>undefined\<close>: no body is sent.\<close>

definition post ::
  "(jsnum \<Rightarrow> string) \<Rightarrow> fetch \<Rightarrow> api_client \<Rightarrow> string \<Rightarrow> jsval
     \<Rightarrow> (js_error + jsval) \<times> api_client" where
  "post nts fetch c endpoint data =
     request nts fetch c endpoint
       (no_options\<lparr>opt_method := Some ''POST'',
                   opt_body := (if data = JUndefined then None else Some data)\<rparr>)"

text \<open>
  \<^verbatim>\<open>loginDirect\<close>: the token is saved when \<^verbatim>\<open>response.success && response.access_token\<close>
  is truthy; the response is returned as it came.
\<close>

definition login_response ::
  "(jsnum \<Rightarrow> string) \<Rightarrow> (js_error + jsval) \<times> api_client \<Rightarrow> (js_error + jsval) \<times> api_client" where
  "login_response nts posted =
     (case posted of
        (Inl e, c) \<Rightarrow> (Inl e, c)
      | (Inr resp, c) \<Rightarrow>
          (case get_prop resp ''success'' of
             Inl e \<Rightarrow> (Inl e, c)
           | Inr s \<Rightarrow>
               if \<not> truthy s then (Inr resp, c)
               else (case get_prop resp ''access_token'' of
                       Inl e \<Rightarrow> (Inl e, c)
                     | Inr t \<Rightarrow>
                         if truthy t then (Inr resp, saveToken nts t c) else (Inr resp, c))))"

definition loginDirect ::
  "(jsnum \<Rightarrow> string) \<Rightarrow> fetch \<Rightarrow> api_client \<Rightarrow> jsval \<Rightarrow> jsval \<Rightarrow> jsval \<Rightarrow> jsval
     \<Rightarrow> (js_error + jsval) \<times> api_client" where
  "loginDirect nts fetch c pronoteUrl username password accountType =
     login_response nts
       (post nts fetch c ''/api/auth/login/direct''
          (JObj [(''pronote_url'', pronoteUrl), (''username'', username),
                 (''password'', password), (''account_type'', accountType)]))"

definition loginCAS ::
  "(jsnum \<Rightarrow> string) \<Rightarrow> fetch \<Rightarrow> api_client \<Rightarrow> jsval \<Rightarrow> jsval \<Rightarrow> jsval \<Rightarrow> jsval
     \<Rightarrow> (js_error + jsval) \<times> api_client" where
  "loginCAS nts fetch c pronoteUrl username password entName =
     login_response nts
       (post nts fetch c ''/api/auth/login/cas''
          (JObj [(''pronote_url'', pronoteUrl), (''username'', username),
                 (''password'', password), (''ent_name'', entName)]))"

text \<open>
  \<^verbatim>\<open>logout\<close>: \<^verbatim>\<open>try { await this.post(...) } finally { this.clearToken() }\<close>. There is no
  \<^verbatim>\<open>catch\<close>: a rejection of the request is the rejection of \<^verbatim>\<open>logout\<close>.
\<close>

definition logout ::
  "(jsnum \<Rightarrow> string) \<Rightarrow> fetch \<Rightarrow> api_client \<Rightarrow> (js_error + jsval) \<times> api_client" where
  "logout nts fetch c =
     (case post nts fetch c ''/api/auth/logout'' JUndefined of
        (Inl e, c') \<Rightarrow> (Inl e, clearToken c')
      | (Inr _, c') \<Rightarrow> (Inr JUndefined, clearToken c'))"

definition getHomework ::
  "(jsnum \<Rightarrow> string) \<Rightarrow> fetch \<Rightarrow> api_client \<Rightarrow> jsval \<Rightarrow> jsval \<Rightarrow> (js_error + jsval) \<times> api_client" where
  "getHomework nts fetch c dateFrom dateTo =
     post nts fetch c ''/api/pronote/homework''
       (JObj [(''date_from'', dateFrom), (''date_to'', dateTo)])"

definition getTimetable ::
  "(jsnum \<Rightarrow> string) \<Rightarrow> fetch \<Rightarrow> api_client \<Rightarrow> jsval \<Rightarrow> jsval \<Rightarrow> (js_error + jsval) \<times> api_client" where
  "getTimetable nts fetch c dateFrom dateTo =
     post nts fetch c ''/api/pronote/timetable''
       (JObj [(''date_from'', dateFrom), (''date_to'', dateTo)])"

text \<open>\<open>enc\<close> is the runtime's \<^verbatim>\<open>encodeURIComponent\<close>.\<close>

definition getGrades ::
  "(jsnum \<Rightarrow> string) \<Rightarrow> (string \<Rightarrow> string) \<Rightarrow> fetch \<Rightarrow> api_client \<Rightarrow> jsval
     \<Rightarrow> (js_error + jsval) \<times> api_client" where
  "getGrades nts enc fetch c periodName =
     (let params = (if truthy periodName
                    then ''?period_name='' @ enc (to_string nts periodName) else [])
      in post nts fetch c (''/api/pronote/grades'' @ params) JUndefined)"

definition sendChatMessage ::
  "(jsnum \<Rightarrow> string) \<Rightarrow> fetch \<Rightarrow> api_client \<Rightarrow> jsval \<Rightarrow> jsval \<Rightarrow> (js_error + jsval) \<times> api_client" where
  "sendChatMessage nts fetch c message context =
     post nts fetch c ''/api/ai/chat''
       (JObj [(''message'', message), (''context'', context), (''model'', JStr AI_model)])"

section \<open>Numbers\<close>

text \<open>
  The arithmetic of \<^verbatim>\<open>displayGrades\<close> on \<^typ>\<open>jsnum\<close>: sums, products and quotients of
  finite numbers are exact (a double rounds them), and the special values follow IEEE 754.
  \<open>Fin 0\<close> is the positive zero.
\<close>

fun neg_sign :: "jsnum \<Rightarrow> bool" where
  "neg_sign NInf = True"
| "neg_sign NZero = True"
| "neg_sign (Fin r) = (r < 0)"
| "neg_sign PInf = False"
| "neg_sign NaN = False"

fun is_zero :: "jsnum \<Rightarrow> bool" where
  "is_zero NZero = True"
| "is_zero (Fin r) = (r = 0)"
| "is_zero _ = False"

fun is_inf :: "jsnum \<Rightarrow> bool" where
  "is_inf PInf = True"
| "is_inf NInf = True"
| "is_inf _ = False"

fun fin_val :: "jsnum \<Rightarrow> rat" where
  "fin_val (Fin r) = r"
| "fin_val _ = 0"

definition mk_inf :: "bool \<Rightarrow> jsnum" where
  "mk_inf neg = (if neg then NInf else PInf)"

definition mk_zero :: "bool \<Rightarrow> jsnum" where
  "mk_zero neg = (if neg then NZero else Fin 0)"

definition jadd :: "jsnum \<Rightarrow> jsnum \<Rightarrow> jsnum" where
  "jadd a b =
     (if a = NaN \<or> b = NaN then NaN
      else if is_inf a \<and> is_inf b then (if a = b then a else NaN)
      else if is_inf a then a
      else if is_inf b then b
      else if a = NZero \<and> b = NZero then NZero
      else Fin (fin_val a + fin_val b))"

definition jmul :: "jsnum \<Rightarrow> jsnum \<Rightarrow> jsnum" where
  "jmul a b =
     (if a = NaN \<or> b = NaN then NaN
      else if (is_inf a \<and> is_zero b) \<or> (is_zero a \<and> is_inf b) then NaN
      else if is_inf a \<or> is_inf b then mk_inf (neg_sign a \<noteq> neg_sign b)
      else if is_zero a \<or> is_zero b then mk_zero (neg_sign a \<noteq> neg_sign b)
      else Fin (fin_val a * fin_val b))"

definition jdiv :: "jsnum \<Rightarrow> jsnum \<Rightarrow> jsnum" where
  "jdiv a b =
     (if a = NaN \<or> b = NaN then NaN
      else if (is_inf a \<and> is_inf b) \<or> (is_zero a \<and> is_zero b) then NaN
      else if is_inf a then mk_inf (neg_sign a \<noteq> neg_sign b)
      else if is_inf b then mk_zero (neg_sign a \<noteq> neg_sign b)
      else if is_zero b then mk_inf (neg_sign a \<noteq> neg_sign b)
      else if is_zero a then mk_zero (neg_sign a \<noteq> neg_sign b)
      else Fin (fin_val a / fin_val b))"

text \<open>
  \<^verbatim>\<open>parseFloat\<close> on a string: leading white space is skipped, then the longest prefix
  that is a decimal literal is read; \<^verbatim>\<open>NaN\<close> if there is none.
\<close>

definition is_digit :: "char \<Rightarrow> bool" where
  "is_digit ch = (48 \<le> (of_char ch :: nat) \<and> (of_char ch :: nat) \<le> 57)"

definition digits_val :: "string \<Rightarrow> nat" where
  "digits_val ds = foldl (\<lambda>a ch. 10 * a + ((of_char ch :: nat) - 48)) 0 ds"

definition starts_with :: "string \<Rightarrow> string \<Rightarrow> bool" where
  "starts_with p s = (take (length p) s = p)"

text \<open>
  The white space of ECMAScript (WhiteSpace and LineTerminator) in UTF-8: the six ASCII
  characters, U+00A0, U+1680, U+2000 to U+200A, U+2028, U+2029, U+202F, U+205F, U+3000 and
  U+FEFF.
\<close>

definition white_space :: "string list" where
  "white_space =
     [[CHR 0x09], [CHR 0x0A], [CHR 0x0B], [CHR 0x0C], [CHR 0x0D], [CHR 0x20],
      [CHR 0xC2, CHR 0xA0], [CHR 0xE1, CHR 0x9A, CHR 0x80],
      [CHR 0xE2, CHR 0x80, CHR 0x80], [CHR 0xE2, CHR 0x80, CHR 0x81],
      [CHR 0xE2, CHR 0x80, CHR 0x82], [CHR 0xE2, CHR 0x80, CHR 0x83],
      [CHR 0xE2, CHR 0x80, CHR 0x84], [CHR 0xE2, CHR 0x80, CHR 0x85],
      [CHR 0xE2, CHR 0x80, CHR 0x86], [CHR 0xE2, CHR 0x80, CHR 0x87],
      [CHR 0xE2, CHR 0x80, CHR 0x88], [CHR 0xE2, CHR 0x80, CHR 0x89],
      [CHR 0xE2, CHR 0x80, CHR 0x8A], [CHR 0xE2, CHR 0x80, CHR 0xA8],
      [CHR 0xE2, CHR 0x80, CHR 0xA9], [CHR 0xE2, CHR 0x80, CHR 0xAF],
      [CHR 0xE2, CHR 0x81, CHR 0x9F], [CHR 0xE3, CHR 0x80, CHR 0x80],
      [CHR 0xEF, CHR 0xBB, CHR 0xBF]]"

text \<open>The string without the characters of \<open>seqs\<close> at its start, and at its end.\<close>

function strip_start :: "string list \<Rightarrow> string \<Rightarrow> string" where
  "strip_start seqs s =
     (case filter (\<lambda>p. p \<noteq> [] \<and> starts_with p s) seqs of
        [] \<Rightarrow> s
      | p # _ \<Rightarrow> strip_start seqs (drop (length p) s))"
  by pat_completeness auto

termination
proof (relation "measure (\<lambda>(seqs, s). length s)")
  show "wf (measure (\<lambda>(seqs, s). length s))" by simp
next
  fix seqs :: "string list" and s p rest
  assume "filter (\<lambda>p. p \<noteq> [] \<and> starts_with p s) seqs = p # rest"
  then have "p \<in> set (filter (\<lambda>p. p \<noteq> [] \<and> starts_with p s) seqs)" by simp
  then have p: "p \<noteq> []" "take (length p) s = p" by (simp_all add: starts_with_def)
  from p(2) have "length (take (length p) s) = length p" by simp
  then have "length p \<le> length s" by simp
  with p(1) show "((seqs, drop (length p) s), seqs, s) \<in> measure (\<lambda>(seqs, s). length s)"
    by (cases p) auto
qed

declare strip_start.simps [simp del]

definition strip_end :: "string list \<Rightarrow> string \<Rightarrow> string" where
  "strip_end seqs s = rev (strip_start (map rev seqs) (rev s))"

text \<open>The exponent part \<^verbatim>\<open>e[+-]ddd\<close> at the head of \<open>s\<close>, or 0 when there is none.\<close>

definition exponent_part :: "string \<Rightarrow> int" where
  "exponent_part s =
     (case s of
        [] \<Rightarrow> 0
      | ch # r \<Rightarrow>
          if ch = CHR ''e'' \<or> ch = CHR ''E'' then
            (let neg = starts_with ''-'' r;
                 r' = (if starts_with ''-'' r \<or> starts_with ''+'' r then tl r else r);
                 ds = takeWhile is_digit r'
             in if ds = [] then 0
                else if neg then - int (digits_val ds) else int (digits_val ds))
          else 0)"

definition scale10 :: "rat \<Rightarrow> int \<Rightarrow> rat" where
  "scale10 v e = (if 0 \<le> e then v * 10 ^ nat e else v / 10 ^ nat (- e))"

definition parse_float :: "string \<Rightarrow> jsnum" where
  "parse_float s =
     (let t = strip_start white_space s;
          neg = starts_with ''-'' t;
          u = (if starts_with ''-'' t \<or> starts_with ''+'' t then tl t else t)
      in if starts_with ''Infinity'' u then mk_inf neg
         else
           (let d1 = takeWhile is_digit u;
                r1 = dropWhile is_digit u;
                d2 = (if starts_with ''.'' r1 then takeWhile is_digit (tl r1) else []);
                r2 = (if starts_with ''.'' r1 then dropWhile is_digit (tl r1) else r1)
            in if d1 = [] \<and> d2 = [] then NaN
               else
                 (let m = of_nat (digits_val d1) + of_nat (digits_val d2) / 10 ^ length d2;
                      v = scale10 m (exponent_part r2)
                  in if v = 0 then mk_zero neg else Fin (if neg then - v else v))))"

text \<open>\<^verbatim>\<open>parseFloat(v)\<close> converts its argument to a string first.\<close>

definition parseFloat :: "(jsnum \<Rightarrow> string) \<Rightarrow> jsval \<Rightarrow> jsnum" where
  "parseFloat nts v = parse_float (to_string nts v)"

section \<open>pronote-data.js\<close>

text \<open>
  What a list container shows. The HTML of an item is not modelled: a rendered grade is
  the values its template interpolates, and the summary block is the average (before
  \<^verbatim>\<open>toFixed(2)\<close>) and the number of grades counted.
\<close>

datatype node =
    Summary jsnum nat
  | GradeItem (shown_subject: jsval) (shown_grade: jsval) (shown_out_of: jsval)
              (shown_coefficient: jsval) (shown_date: jsval) (shown_comment: jsval)
  | Rendered jsval

datatype view = Loading | EmptyState string | ErrorMessage string | Content "node list"

text \<open>
  \<^verbatim>\<open>this.data\<close> and the three containers; \<open>None\<close> is a container that
  \<^verbatim>\<open>document.getElementById\<close> does not find.
\<close>

record data_manager =
  data_homework :: jsval
  data_timetable :: jsval
  data_grades :: jsval
  homework_list :: "view option"
  timetable_list :: "view option"
  grades_list :: "view option"

type_synonym display = "jsval \<Rightarrow> data_manager \<Rightarrow> js_error option \<times> data_manager"

definition msg_no_homework :: string where
  "msg_no_homework = ''Aucun devoir '' @ [CHR 0xC3, CHR 0xA0] @ '' venir''"

definition msg_homework_error :: string where
  "msg_homework_error = ''Erreur lors du chargement des devoirs''"

definition msg_no_lessons :: string where
  "msg_no_lessons = ''Aucun cours cette semaine''"

definition msg_timetable_error :: string where
  "msg_timetable_error = ''Erreur lors du chargement de l'' @ [CHR 0x27] @ ''emploi du temps''"

definition msg_no_grades :: string where
  "msg_no_grades = ''Aucune note disponible''"

definition msg_grades_error :: string where
  "msg_grades_error = ''Erreur lors du chargement des notes''"

text \<open>\<^verbatim>\<open>v.length === 0\<close> on a value read by \<open>get_prop\<close>.\<close>

definition is_number_zero :: "jsval \<Rightarrow> bool" where
  "is_number_zero v = (v = JNum (Fin 0) \<or> v = JNum NZero)"

text \<open>\<^verbatim>\<open>grades.filter(g => g.grade && g.out_of)\<close>; a \<^verbatim>\<open>null\<close> element throws.\<close>

fun filter_valid :: "jsval list \<Rightarrow> js_error + jsval list" where
  "filter_valid [] = Inr []"
| "filter_valid (g # gs) =
     (case get_prop g ''grade'' of
        Inl e \<Rightarrow> Inl e
      | Inr gr \<Rightarrow>
          (case (if truthy gr then get_prop g ''out_of'' else Inr gr) of
             Inl e \<Rightarrow> Inl e
           | Inr keep \<Rightarrow>
               (case filter_valid gs of
                  Inl e \<Rightarrow> Inl e
                | Inr r \<Rightarrow> Inr (if truthy keep then g # r else r))))"

text \<open>
  \<^verbatim>\<open>validGrades.reduce((sum, g) => sum + (parseFloat(g.grade) / parseFloat(g.out_of)) * 20, 0)\<close>
\<close>

fun reduce_sum :: "(jsnum \<Rightarrow> string) \<Rightarrow> jsnum \<Rightarrow> jsval list \<Rightarrow> js_error + jsnum" where
  "reduce_sum nts acc [] = Inr acc"
| "reduce_sum nts acc (g # gs) =
     (case get_prop g ''grade'' of
        Inl e \<Rightarrow> Inl e
      | Inr gr \<Rightarrow>
          (case get_prop g ''out_of'' of
             Inl e \<Rightarrow> Inl e
           | Inr oo \<Rightarrow>
               reduce_sum nts
                 (jadd acc (jmul (jdiv (parseFloat nts gr) (parseFloat nts oo)) (Fin 20))) gs))"

definition average :: "(jsnum \<Rightarrow> string) \<Rightarrow> jsval list \<Rightarrow> js_error + jsnum" where
  "average nts validGrades =
     (case reduce_sum nts (Fin 0) validGrades of
        Inl e \<Rightarrow> Inl e
      | Inr tot \<Rightarrow> Inr (jdiv tot (Fin (of_nat (length validGrades)))))"

text \<open>
  The body of \<^verbatim>\<open>grades.forEach\<close>: nothing for a falsy \<^verbatim>\<open>grade.grade\<close>, else the item.
  The later reads are on the same \<open>grade\<close>, which the first read has shown not to be
  \<^verbatim>\<open>null\<close>.
\<close>

definition prop_of :: "jsval \<Rightarrow> string \<Rightarrow> jsval" where
  "prop_of v k = (case get_prop v k of Inr x \<Rightarrow> x | Inl _ \<Rightarrow> JUndefined)"

definition grade_item :: "jsval \<Rightarrow> js_error + node option" where
  "grade_item grade =
     (case get_prop grade ''grade'' of
        Inl e \<Rightarrow> Inl e
      | Inr gr \<Rightarrow>
          if \<not> truthy gr then Inr None
          else Inr (Some (GradeItem (prop_of grade ''subject'') gr
                            (js_or (prop_of grade ''out_of'') (JNum (Fin 20)))
                            (js_or (prop_of grade ''coefficient'') (JNum (Fin 1)))
                            (prop_of grade ''date'') (prop_of grade ''comment''))))"

text \<open>
  \<^verbatim>\<open>grades.forEach(...)\<close> appending to the container: the nodes appended so far, and the
  error that stopped the loop if there is one.
\<close>

fun grade_items :: "jsval list \<Rightarrow> node list \<Rightarrow> js_error option \<times> node list" where
  "grade_items [] acc = (None, acc)"
| "grade_items (g # gs) acc =
     (case grade_item g of
        Inl e \<Rightarrow> (Some e, acc)
      | Inr None \<Rightarrow> grade_items gs acc
      | Inr (Some n) \<Rightarrow> grade_items gs (acc @ [n]))"

definition displayGrades :: "(jsnum \<Rightarrow> string) \<Rightarrow> display" where
  "displayGrades nts grades dm =
     (case grades_list dm of
        None \<Rightarrow> (None, dm)
      | Some _ \<Rightarrow>
          (case get_prop grades ''length'' of
             Inl e \<Rightarrow> (Some e, dm)
           | Inr len \<Rightarrow>
               if is_number_zero len then (None, dm\<lparr>grades_list := Some (EmptyState msg_no_grades)\<rparr>)
               else
                 (let dm1 = dm\<lparr>grades_list := Some (Content [])\<rparr>
                  in case grades of
                       JArr gs \<Rightarrow>
                         (case filter_valid gs of
                            Inl e \<Rightarrow> (Some e, dm1)
                          | Inr validGrades \<Rightarrow>
                              (case (if validGrades \<noteq> []
                                     then (case average nts validGrades of
                                             Inl e \<Rightarrow> Inl e
                                           | Inr a \<Rightarrow> Inr [Summary a (length validGrades)])
                                     else Inr []) of
                                 Inl e \<Rightarrow> (Some e, dm1)
                               | Inr head \<Rightarrow>
                                   (case grade_items gs head of
                                      (err, nodes) \<Rightarrow>
                                        (err, dm\<lparr>grades_list := Some (Content nodes)\<rparr>))))
                     | _ \<Rightarrow> (Some (NotAFunction ''grades.filter''), dm1))))"

text \<open>
  The three loaders have one shape. \<open>call\<close> is the awaited API call, \<open>store\<close> the
  assignment to \<^verbatim>\<open>this.data\<close>, \<open>display\<close> the display method; every error raised inside
  the \<^verbatim>\<open>try\<close> block ends in \<^verbatim>\<open>showError\<close>.
\<close>

definition load_list ::
  "(data_manager \<Rightarrow> view option) \<Rightarrow> (view \<Rightarrow> data_manager \<Rightarrow> data_manager) \<Rightarrow> string
     \<Rightarrow> (jsval \<Rightarrow> data_manager \<Rightarrow> data_manager) \<Rightarrow> display \<Rightarrow> string \<Rightarrow> string
     \<Rightarrow> (api_client \<Rightarrow> (js_error + jsval) \<times> api_client)
     \<Rightarrow> api_client \<times> data_manager \<Rightarrow> api_client \<times> data_manager" where
  "load_list container put field store display emptyMsg errorMsg call st =
     (case st of (c, dm) \<Rightarrow>
        (case container dm of
           None \<Rightarrow> (c, dm)
         | Some _ \<Rightarrow>
             (let dm1 = put Loading dm
              in case call c of
                   (Inl e, c') \<Rightarrow> (c', put (ErrorMessage errorMsg) dm1)
                 | (Inr resp, c') \<Rightarrow>
                     (case get_prop resp ''success'' of
                        Inl e \<Rightarrow> (c', put (ErrorMessage errorMsg) dm1)
                      | Inr s \<Rightarrow>
                          if \<not> truthy s then (c', put (EmptyState emptyMsg) dm1)
                          else
                            (case get_prop resp field of
                               Inl e \<Rightarrow> (c', put (ErrorMessage errorMsg) dm1)
                             | Inr v \<Rightarrow>
                                 if \<not> truthy v then (c', put (EmptyState emptyMsg) dm1)
                                 else
                                   (case display v (store v dm1) of
                                      (None, dm2) \<Rightarrow> (c', dm2)
                                    | (Some e, dm2) \<Rightarrow>
                                        (c', put (ErrorMessage errorMsg) dm2)))))))"

text \<open>
  \<^verbatim>\<open>displayHomework\<close> and \<^verbatim>\<open>displayTimetable\<close> build HTML from dates in the browser's
  locale; the loaders take them as arguments, and the date range of the request too.
\<close>

definition loadHomework ::
  "(jsnum \<Rightarrow> string) \<Rightarrow> fetch \<Rightarrow> display \<Rightarrow> jsval \<Rightarrow> jsval
     \<Rightarrow> api_client \<times> data_manager \<Rightarrow> api_client \<times> data_manager" where
  "loadHomework nts fetch displayHomework dateFrom dateTo =
     load_list homework_list (\<lambda>v dm. dm\<lparr>homework_list := Some v\<rparr>) ''homework''
       (\<lambda>v dm. dm\<lparr>data_homework := v\<rparr>) displayHomework msg_no_homework msg_homework_error
       (\<lambda>c. getHomework nts fetch c dateFrom dateTo)"

definition loadTimetable ::
  "(jsnum \<Rightarrow> string) \<Rightarrow> fetch \<Rightarrow> display \<Rightarrow> jsval \<Rightarrow> jsval
     \<Rightarrow> api_client \<times> data_manager \<Rightarrow> api_client \<times> data_manager" where
  "loadTimetable nts fetch displayTimetable monday sunday =
     load_list timetable_list (\<lambda>v dm. dm\<lparr>timetable_list := Some v\<rparr>) ''timetable''
       (\<lambda>v dm. dm\<lparr>data_timetable := v\<rparr>) displayTimetable msg_no_lessons msg_timetable_error
       (\<lambda>c. getTimetable nts fetch c monday sunday)"

text \<open>\<^verbatim>\<open>apiClient.getGrades()\<close>: no period, so the encoder is not reached.\<close>

definition loadGrades ::
  "(jsnum \<Rightarrow> string) \<Rightarrow> fetch \<Rightarrow> api_client \<times> data_manager \<Rightarrow> api_client \<times> data_manager" where
  "loadGrades nts fetch =
     load_list grades_list (\<lambda>v dm. dm\<lparr>grades_list := Some v\<rparr>) ''grades''
       (\<lambda>v dm. dm\<lparr>data_grades := v\<rparr>) (displayGrades nts) msg_no_grades msg_grades_error
       (\<lambda>c. getGrades nts (\<lambda>s. s) fetch c JNull)"

definition msg_login_to_see :: string where
  "msg_login_to_see = ''Connectez-vous pour voir vos donn'' @ [CHR 0xC3, CHR 0xA9] @ ''es''"

definition clearAllData :: "data_manager \<Rightarrow> data_manager" where
  "clearAllData dm =
     \<lparr>data_homework = JArr [], data_timetable = JArr [], data_grades = JArr [],
      homework_list = map_option (\<lambda>_. EmptyState msg_login_to_see) (homework_list dm),
      timetable_list = map_option (\<lambda>_. EmptyState msg_login_to_see) (timetable_list dm),
      grades_list = map_option (\<lambda>_. EmptyState msg_login_to_see) (grades_list dm)\<rparr>"

section \<open>The chat manager\<close>

datatype chat_node = MessageNode string jsval | TypingNode | StaticWelcome

text \<open>
  \<^verbatim>\<open>this.messages\<close> (role and content; the time stamp is left out), \<^verbatim>\<open>this.isTyping\<close>,
  the children of the \<^verbatim>\<open>chat-messages\<close> container (\<open>None\<close>: no such element) and the
  value of the input field.
\<close>

record chat_manager =
  messages :: "(string \<times> jsval) list"
  isTyping :: bool
  chat_messages :: "chat_node list option"
  chat_input :: string

definition MAX_CHAT_MESSAGES :: nat where
  "MAX_CHAT_MESSAGES = 100"

definition addMessage :: "string \<Rightarrow> jsval \<Rightarrow> chat_manager \<Rightarrow> chat_manager" where
  "addMessage role content ch =
     (case chat_messages ch of
        None \<Rightarrow> ch
      | Some kids \<Rightarrow>
          (let kids1 = kids @ [MessageNode role content];
               msgs1 = messages ch @ [(role, content)]
           in if length msgs1 > MAX_CHAT_MESSAGES
              then ch\<lparr>messages := drop (length msgs1 - MAX_CHAT_MESSAGES) msgs1,
                      chat_messages := Some (drop (length kids1 - MAX_CHAT_MESSAGES) kids1)\<rparr>
              else ch\<lparr>messages := msgs1, chat_messages := Some kids1\<rparr>))"

definition showTypingIndicator :: "chat_manager \<Rightarrow> chat_manager" where
  "showTypingIndicator ch =
     (case chat_messages ch of
        None \<Rightarrow> ch
      | Some kids \<Rightarrow> ch\<lparr>chat_messages := Some (kids @ [TypingNode])\<rparr>)"

definition hideTypingIndicator :: "chat_manager \<Rightarrow> chat_manager" where
  "hideTypingIndicator ch = ch\<lparr>chat_messages := map_option (remove1 TypingNode) (chat_messages ch)\<rparr>"

definition clearMessages :: "chat_manager \<Rightarrow> chat_manager" where
  "clearMessages ch =
     ch\<lparr>chat_messages := map_option (\<lambda>_. [StaticWelcome]) (chat_messages ch), messages := []\<rparr>"

definition welcome_text :: "string \<Rightarrow> string" where
  "welcome_text name =
     ''Bonjour '' @ name @ '' ! Je suis ton assistant IA. '' @ [CHR 0x0A] @ ''Je peux t''
       @ [CHR 0x27] @ ''aider '' @ [CHR 0xC3, CHR 0xA0]
       @ '' organiser tes devoirs, consulter ton emploi du temps et suivre tes notes. ''
       @ [CHR 0x0A] @ ''N'' @ [CHR 0x27] @ ''h'' @ [CHR 0xC3, CHR 0xA9] @ ''site pas ''
       @ [CHR 0xC3, CHR 0xA0] @ '' me poser des questions !''"

definition addWelcomeMessage :: "(jsnum \<Rightarrow> string) \<Rightarrow> jsval \<Rightarrow> chat_manager \<Rightarrow> chat_manager" where
  "addWelcomeMessage nts user ch =
     (if truthy user
      then addMessage ''assistant''
             (JStr (welcome_text (to_string nts (prop_of user ''student_name'')))) ch
      else ch)"

definition chat_fallback :: string where
  "chat_fallback =
     ''D'' @ [CHR 0xC3, CHR 0xA9] @ ''sol'' @ [CHR 0xC3, CHR 0xA9] @ '', je n'' @ [CHR 0x27]
       @ ''ai pas pu traiter votre demande.''"

definition chat_error_fallback :: string where
  "chat_error_fallback =
     ''Une erreur est survenue. Veuillez r'' @ [CHR 0xC3, CHR 0xA9] @ ''essayer.''"

text \<open>\<^verbatim>\<open>String.prototype.trim\<close>.\<close>

definition trim :: "string \<Rightarrow> string" where
  "trim s = strip_end white_space (strip_start white_space s)"

text \<open>
  The \<^verbatim>\<open>try\<close> block of \<^verbatim>\<open>sendMessage\<close>. \<open>buildContext\<close> stands for
  \<^verbatim>\<open>this.buildContext\<close>, which reads the other managers and may throw.
\<close>

definition send_try ::
  "(jsnum \<Rightarrow> string) \<Rightarrow> fetch \<Rightarrow> (string \<Rightarrow> js_error + jsval) \<Rightarrow> string
     \<Rightarrow> api_client \<times> chat_manager \<Rightarrow> js_error option \<times> api_client \<times> chat_manager" where
  "send_try nts fetch buildContext message st =
     (case st of (c, ch) \<Rightarrow>
        (case buildContext message of
           Inl e \<Rightarrow> (Some e, c, ch)
         | Inr context \<Rightarrow>
             (case sendChatMessage nts fetch c (JStr message) context of
                (Inl e, c') \<Rightarrow> (Some e, c', ch)
              | (Inr resp, c') \<Rightarrow>
                  (case get_prop resp ''success'' of
                     Inl e \<Rightarrow> (Some e, c', ch)
                   | Inr s \<Rightarrow>
                       if \<not> truthy s
                       then (None, c', addMessage ''assistant'' (JStr chat_fallback) ch)
                       else
                         (case get_prop resp ''response'' of
                            Inl e \<Rightarrow> (Some e, c', ch)
                          | Inr reply \<Rightarrow>
                              if truthy reply
                              then (None, c', addMessage ''assistant'' reply ch)
                              else (None, c',
                                    addMessage ''assistant'' (JStr chat_fallback) ch))))))"

text \<open>
  \<^verbatim>\<open>sendMessage\<close>: the first component is the error the call rejects with, if any. The
  \<^verbatim>\<open>catch\<close> block answers every error of the \<^verbatim>\<open>try\<close> block with a message of its own.
\<close>

definition sendMessage ::
  "(jsnum \<Rightarrow> string) \<Rightarrow> fetch \<Rightarrow> (string \<Rightarrow> js_error + jsval)
     \<Rightarrow> api_client \<times> chat_manager \<Rightarrow> js_error option \<times> api_client \<times> chat_manager" where
  "sendMessage nts fetch buildContext st =
     (case st of (c, ch) \<Rightarrow>
        (let message = trim (chat_input ch)
         in if message = [] \<or> isTyping ch then (None, c, ch)
            else
              (let ch1 = (addMessage ''user'' (JStr message) ch)\<lparr>chat_input := []\<rparr>;
                   ch2 = (showTypingIndicator ch1)\<lparr>isTyping := True\<rparr>
               in case send_try nts fetch buildContext message (c, ch2) of
                    (None, c', ch3) \<Rightarrow>
                      (None, c', (hideTypingIndicator ch3)\<lparr>isTyping := False\<rparr>)
                  | (Some e, c', ch3) \<Rightarrow>
                      (None, c',
                       (hideTypingIndicator
                          (addMessage ''assistant'' (JStr chat_error_fallback) ch3))
                         \<lparr>isTyping := False\<rparr>))))"

section \<open>auth.js\<close>

text \<open>
  \<^verbatim>\<open>this.currentUser\<close> and the page as the manager reads and writes it: \<open>elements\<close> are
  the ids that \<^verbatim>\<open>document.getElementById\<close> finds, and for the elements it finds, the text
  of the \<^verbatim>\<open>login-error\<close> box (\<open>None\<close>: not shown), whether the loading overlay is shown,
  which of the two screens carry the class \<^verbatim>\<open>active\<close>, and the two fields of the dashboard
  header. Left out: the timer that hides the error box after five seconds, the text of the
  overlay, the disabling of the submit buttons and the content of the two forms.
\<close>

record auth_manager =
  currentUser :: jsval
  elements :: "string set"
  login_error :: "string option"
  loading :: bool
  login_screen_active :: bool
  dashboard_active :: bool
  student_name_text :: jsval
  student_class_text :: jsval

text \<open>
  The constructor, on the page it finds: \<^verbatim>\<open>this.currentUser = null\<close>. It also binds the
  handlers and starts \<^verbatim>\<open>loadENTs\<close>, which fills the selector of the CAS form.
\<close>

definition new_AuthManager :: "auth_manager \<Rightarrow> auth_manager" where
  "new_AuthManager page = page\<lparr>currentUser := JNull\<rparr>"

definition showError :: "string \<Rightarrow> auth_manager \<Rightarrow> auth_manager" where
  "showError message a =
     (if ''login-error'' \<in> elements a then a\<lparr>login_error := Some message\<rparr> else a)"

definition setLoading :: "bool \<Rightarrow> auth_manager \<Rightarrow> auth_manager" where
  "setLoading isLoading a =
     (if ''loading-overlay'' \<in> elements a then a\<lparr>loading := isLoading\<rparr> else a)"

text \<open>\<^verbatim>\<open>error.message\<close>; the text of an engine's TypeError is the one V8 gives.\<close>

fun error_message :: "js_error \<Rightarrow> string" where
  "error_message (Error m) = m"
| "error_message (FetchFailed m) = m"
| "error_message (JsonRejected m) = m"
| "error_message (NullDeref v k) =
     ''Cannot read properties of '' @ (if v = JNull then ''null'' else ''undefined'')
       @ '' (reading '' @ [CHR 0x27] @ k @ [CHR 0x27] @ '')''"
| "error_message (NullAssign k) =
     ''Cannot set properties of null (setting '' @ [CHR 0x27] @ k @ [CHR 0x27] @ '')''"
| "error_message (NotAFunction f) = f @ '' is not a function''"

definition msg_fill_all_fields :: string where
  "msg_fill_all_fields = ''Veuillez remplir tous les champs''"

definition msg_auth_failed :: string where
  "msg_auth_failed = [CHR 0xC3, CHR 0x89] @ ''chec de l'' @ [CHR 0x27] @ ''authentification''"

definition msg_connection_error :: string where
  "msg_connection_error = ''Erreur de connexion''"

text \<open>
  \<^verbatim>\<open>onLoginSuccess\<close>, statement by statement. None of the \<^verbatim>\<open>getElementById\<close> results is
  tested: a write to \<^verbatim>\<open>textContent\<close> of a missing element throws once its right-hand side
  has been evaluated, a read of \<^verbatim>\<open>classList\<close> on a missing element throws at once. The
  function also starts \<^verbatim>\<open>pronoteDataManager.loadAllData()\<close> without awaiting it: the three
  loads run after the handler has gone on and are not part of this function.
\<close>

definition onLoginSuccess ::
  "(jsnum \<Rightarrow> string) \<Rightarrow> auth_manager \<times> chat_manager
     \<Rightarrow> js_error option \<times> auth_manager \<times> chat_manager" where
  "onLoginSuccess nts st =
     (case st of (a, ch) \<Rightarrow>
        (case get_prop (currentUser a) ''student_name'' of
           Inl e \<Rightarrow> (Some e, a, ch)
         | Inr name \<Rightarrow>
             if ''student-name'' \<notin> elements a then (Some (NullAssign ''textContent''), a, ch)
             else
               (let a1 = a\<lparr>student_name_text := name\<rparr>
                in if ''student-class'' \<notin> elements a
                   then (Some (NullAssign ''textContent''), a1, ch)
                   else
                     (let a2 = a1\<lparr>student_class_text :=
                                     js_or (prop_of (currentUser a) ''class_name'')
                                       (JStr ''Classe non disponible'')\<rparr>
                      in if ''login-screen'' \<notin> elements a
                         then (Some (NullDeref JNull ''classList''), a2, ch)
                         else
                           (let a3 = a2\<lparr>login_screen_active := False\<rparr>
                            in if ''dashboard-screen'' \<notin> elements a
                               then (Some (NullDeref JNull ''classList''), a3, ch)
                               else
                                 (let a4 = a3\<lparr>dashboard_active := True\<rparr>
                                  in (None, a4,
                                      addWelcomeMessage nts (currentUser a4) ch)))))))"

definition login_catch :: "js_error \<Rightarrow> auth_manager \<Rightarrow> auth_manager" where
  "login_catch e a =
     showError (if error_message e \<noteq> [] then error_message e else msg_connection_error) a"

text \<open>
  \<^verbatim>\<open>handleDirectLogin\<close>, the submit handler of the direct login form, from the values of
  the form's fields (\<open>accountType\<close> is the result of \<^verbatim>\<open>parseInt\<close>). The handler catches
  every error of its \<^verbatim>\<open>try\<close> block.
\<close>

definition handleDirectLogin ::
  "(jsnum \<Rightarrow> string) \<Rightarrow> fetch \<Rightarrow> string \<Rightarrow> string \<Rightarrow> string \<Rightarrow> jsval
     \<Rightarrow> api_client \<times> auth_manager \<times> chat_manager
     \<Rightarrow> api_client \<times> auth_manager \<times> chat_manager" where
  "handleDirectLogin nts fetch url_field username_field password accountType st =
     (case st of (c, a, ch) \<Rightarrow>
        (let pronoteUrl = trim url_field; username = trim username_field
         in if pronoteUrl = [] \<or> username = [] \<or> password = []
            then (c, showError msg_fill_all_fields a, ch)
            else
              (let a1 = setLoading True a
               in case loginDirect nts fetch c (JStr pronoteUrl) (JStr username)
                         (JStr password) accountType of
                    (Inl e, c') \<Rightarrow> (c', setLoading False (login_catch e a1), ch)
                  | (Inr resp, c') \<Rightarrow>
                      (case get_prop resp ''success'' of
                         Inl e \<Rightarrow> (c', setLoading False (login_catch e a1), ch)
                       | Inr s \<Rightarrow>
                           if \<not> truthy s
                           then (c', setLoading False (showError msg_auth_failed a1), ch)
                           else
                             (case get_prop resp ''student'' of
                                Inl e \<Rightarrow> (c', setLoading False (login_catch e a1), ch)
                              | Inr student \<Rightarrow>
                                  (case onLoginSuccess nts (a1\<lparr>currentUser := student\<rparr>, ch) of
                                     (None, a2, ch2) \<Rightarrow> (c', setLoading False a2, ch2)
                                   | (Some e, a2, ch2) \<Rightarrow>
                                       (c', setLoading False (login_catch e a2), ch2)))))))"

text \<open>
  \<^verbatim>\<open>onLogoutSuccess\<close>, statement by statement: the current user is reset first, then the
  two screens and the two forms are dereferenced without a test, and a missing one throws
  there; the chat and the data are cleared last.
\<close>

definition onLogoutSuccess ::
  "auth_manager \<times> data_manager \<times> chat_manager
     \<Rightarrow> js_error option \<times> auth_manager \<times> data_manager \<times> chat_manager" where
  "onLogoutSuccess st =
     (case st of (a, dm, ch) \<Rightarrow>
        (let a1 = a\<lparr>currentUser := JNull\<rparr>
         in if ''dashboard-screen'' \<notin> elements a
            then (Some (NullDeref JNull ''classList''), a1, dm, ch)
            else
              (let a2 = a1\<lparr>dashboard_active := False\<rparr>
               in if ''login-screen'' \<notin> elements a
                  then (Some (NullDeref JNull ''classList''), a2, dm, ch)
                  else
                    (let a3 = a2\<lparr>login_screen_active := True\<rparr>
                     in if ''login-form-direct'' \<notin> elements a
                        then (Some (NullDeref JNull ''reset''), a3, dm, ch)
                        else if ''login-form-cas'' \<notin> elements a
                        then (Some (NullDeref JNull ''reset''), a3, dm, ch)
                        else (None, a3, clearAllData dm, clearMessages ch)))))"

text \<open>
  \<^verbatim>\<open>handleLogout\<close>: the \<^verbatim>\<open>catch\<close> block logs the error of \<^verbatim>\<open>apiClient.logout()\<close> and goes
  on; the \<^verbatim>\<open>finally\<close> block runs \<^verbatim>\<open>onLogoutSuccess\<close> and then hides the overlay, and an
  error thrown there is the error the handler rejects with (the first component).
\<close>

definition handleLogout ::
  "(jsnum \<Rightarrow> string) \<Rightarrow> fetch \<Rightarrow> api_client \<times> auth_manager \<times> data_manager \<times> chat_manager
     \<Rightarrow> js_error option \<times> api_client \<times> auth_manager \<times> data_manager \<times> chat_manager" where
  "handleLogout nts fetch st =
     (case st of (c, a, dm, ch) \<Rightarrow>
        (let a1 = setLoading True a
         in case logout nts fetch c of
              (_, c') \<Rightarrow>
                (case onLogoutSuccess (a1, dm, ch) of
                   (Some e, a2, dm2, ch2) \<Rightarrow> (Some e, c', a2, dm2, ch2)
                 | (None, a2, dm2, ch2) \<Rightarrow> (None, c', setLoading False a2, dm2, ch2))))"

definition isAuthenticated :: "api_client \<Rightarrow> auth_manager \<Rightarrow> bool" where
  "isAuthenticated c a = (client_isAuthenticated c \<and> currentUser a \<noteq> JNull)"

section \<open>Observations\<close>

text \<open>
  HTTP header names are case-insensitive: the headers of a request that go by a name are
  the entries of the \<^verbatim>\<open>headers\<close> object whose key is that name in any capitalisation.
\<close>

definition lower_char :: "char \<Rightarrow> char" where
  "lower_char ch =
     (if 65 \<le> (of_char ch :: nat) \<and> (of_char ch :: nat) \<le> 90
      then char_of ((of_char ch :: nat) + 32) else ch)"

definition lower :: "string \<Rightarrow> string" where
  "lower s = map lower_char s"

definition header_values :: "string \<Rightarrow> (string \<times> string) list \<Rightarrow> string list" where
  "header_values name hs = map snd (filter (\<lambda>kv. lower (fst kv) = lower name) hs)"

definition caller_headers :: "req_options \<Rightarrow> (string \<times> string) list" where
  "caller_headers options = (case opt_headers options of None \<Rightarrow> [] | Some h \<Rightarrow> h)"

text \<open>A transport-level failure: no response at all, or a status outside 200..299.\<close>

definition transport_failure :: "fetch_outcome \<Rightarrow> bool" where
  "transport_failure outcome = (case outcome of NoResponse _ \<Rightarrow> True | Responded r \<Rightarrow> \<not> ok r)"

text \<open>An environment in which every \<^verbatim>\<open>fetch\<close> settles the same way.\<close>

definition always :: "fetch_outcome \<Rightarrow> fetch" where
  "always outcome url config = outcome"

definition respond :: "nat \<Rightarrow> jsval \<Rightarrow> fetch_outcome" where
  "respond st body = Responded \<lparr>status = st, json = Inr body\<rparr>"

text \<open>Concrete inputs for the examples.\<close>

definition nts0 :: "jsnum \<Rightarrow> string" where
  "nts0 n = ''0''"

definition client_with :: "string \<Rightarrow> api_client" where
  "client_with tok = \<lparr>accessToken = JStr tok, sessionStorage = [''access_token'' \<mapsto> tok]\<rparr>"

definition anonymous_client :: api_client where
  "anonymous_client = \<lparr>accessToken = JNull, sessionStorage = Map.empty\<rparr>"

text \<open>
  A response without data: \<^verbatim>\<open>response.success && response.<field>\<close> is falsy (success is
  false, or the field is missing or otherwise falsy).
\<close>

definition no_data :: "string \<Rightarrow> jsval \<Rightarrow> bool" where
  "no_data field resp = (\<not> (truthy (prop_of resp ''success'') \<and> truthy (prop_of resp field)))"

text \<open>A page with the three containers, nothing loaded, and a display method that renders nothing.\<close>

definition blank_page :: data_manager where
  "blank_page =
     \<lparr>data_homework = JArr [], data_timetable = JArr [], data_grades = JArr [],
      homework_list = Some Loading, timetable_list = Some Loading, grades_list = Some Loading\<rparr>"

definition no_display :: display where
  "no_display v dm = (None, dm)"



definition portal_url :: string where
  "portal_url = ''https://demo.index-education.net/pronote/''"

text \<open>The page with every element the authentication manager uses, showing the login screen.\<close>

definition login_page :: auth_manager where
  "login_page =
     \<lparr>currentUser = JNull,
      elements = {''login-error'', ''loading-overlay'', ''student-name'', ''student-class'',
                  ''login-screen'', ''dashboard-screen'', ''login-form-direct'',
                  ''login-form-cas''},
      login_error = None, loading = False, login_screen_active = True,
      dashboard_active = False, student_name_text = JStr [], student_class_text = JStr []\<rparr>"

definition no_chat :: chat_manager where
  "no_chat = \<lparr>messages = [], isTyping = False, chat_messages = Some [], chat_input = []\<rparr>"






text \<open>Grade entries for the examples.\<close>

definition grade_math :: jsval where
  "grade_math = JObj [(''subject'', JStr ''Math''), (''grade'', JStr ''15''), (''out_of'', JStr ''20'')]"

definition grade_art :: jsval where
  "grade_art = JObj [(''subject'', JStr ''Art''), (''grade'', JNull)]"



section \<open>The transport layer\<close>

lemma filter_obj_set_other:
  "lower k \<noteq> lower name \<Longrightarrow>
   filter (\<lambda>kv. lower (fst kv) = lower name) (obj_set acc k v) =
   filter (\<lambda>kv. lower (fst kv) = lower name) acc"
  by (induction acc) auto

lemma filter_obj_spread_other:
  "\<forall>k \<in> set (map fst b). lower k \<noteq> lower name \<Longrightarrow>
   filter (\<lambda>kv. lower (fst kv) = lower name) (obj_spread a b) =
   filter (\<lambda>kv. lower (fst kv) = lower name) a"
  unfolding obj_spread_def
proof (induction b arbitrary: a)
  case Nil
  then show ?case by simp
next
  case (Cons x b)
  obtain k v where x: "x = (k, v)" by (cases x)
  from Cons.prems x have k: "lower k \<noteq> lower name" by simp
  from Cons.prems have rest: "\<forall>k \<in> set (map fst b). lower k \<noteq> lower name" by simp
  show ?case
    using Cons.IH [OF rest, of "obj_set a k v"] filter_obj_set_other [OF k, of a v]
    by (simp add: x)
qed

lemma header_values_default:
  "header_values ''Authorization'' (defaultHeaders nts c) =
     (if truthy (accessToken c) then [''Bearer '' @ to_string nts (accessToken c)] else [])"
  by (simp add: header_values_def defaultHeaders_def lower_def lower_char_def)

lemma header_values_config:
  "\<forall>k \<in> set (map fst (caller_headers options)). lower k \<noteq> lower ''Authorization'' \<Longrightarrow>
   header_values ''Authorization'' (cfg_headers (request_config nts c options)) =
   header_values ''Authorization'' (defaultHeaders nts c)"
  using filter_obj_spread_other [of "caller_headers options" "''Authorization''" "defaultHeaders nts c"]
  by (simp add: header_values_def request_config_def caller_headers_def)

text \<open>
  C1, as amended. When the caller's own \<^verbatim>\<open>options.headers\<close> name no Authorization
  header, the request handed to \<^verbatim>\<open>fetch\<close> carries exactly one Authorization header,
  \<^verbatim>\<open>Bearer\<close> followed by the token, if a token is held (\<^verbatim>\<open>this.accessToken\<close> is truthy),
  and none at all otherwise.
\<close>

theorem request_authorization_header:
  assumes "\<forall>k \<in> set (map fst (caller_headers options)). lower k \<noteq> lower ''Authorization''"
  shows "header_values ''Authorization'' (cfg_headers (request_config nts c options)) =
           (if truthy (accessToken c) then [''Bearer '' @ to_string nts (accessToken c)] else [])"
  using header_values_config [OF assms] by (simp only: header_values_default)

theorem request_authorization_header_witness:
  "header_values ''Authorization''
        (cfg_headers (request_config nts0 (client_with ''abc'')
           (no_options\<lparr>opt_headers := Some [(''X-Trace'', ''1'')]\<rparr>))) = [''Bearer abc'']
   \<and> header_values ''Authorization''
        (cfg_headers (request_config nts0 anonymous_client
           (no_options\<lparr>opt_headers := Some [(''X-Trace'', ''1'')]\<rparr>))) = []"
proof -
  have h: "\<forall>k \<in> set (map fst (caller_headers (no_options\<lparr>opt_headers := Some [(''X-Trace'', ''1'')]\<rparr>))).
       lower k \<noteq> lower ''Authorization''"
    by (simp add: caller_headers_def no_options_def lower_def)
  show ?thesis
    using request_authorization_header [OF h, of nts0 "client_with ''abc''"]
      request_authorization_header [OF h, of nts0 anonymous_client]
    by (simp add: client_with_def anonymous_client_def)
qed

text \<open>
  C1 as stated fails: the caller's headers are spread over the default ones, so an
  Authorization header among them replaces the bearer header of a held token, and is sent
  when no token is held.
\<close>

theorem request_authorization_header_counterexample:
  "truthy (accessToken (client_with ''abc''))
   \<and> header_values ''Authorization''
        (cfg_headers (request_config nts0 (client_with ''abc'')
           (no_options\<lparr>opt_headers := Some [(''Authorization'', ''Basic xyz'')]\<rparr>))) = [''Basic xyz'']
   \<and> \<not> truthy (accessToken anonymous_client)
   \<and> header_values ''Authorization''
        (cfg_headers (request_config nts0 anonymous_client
           (no_options\<lparr>opt_headers := Some [(''Authorization'', ''Basic xyz'')]\<rparr>))) = [''Basic xyz'']"
  by (simp add: client_with_def anonymous_client_def header_values_def request_config_def
      no_options_def defaultHeaders_def obj_spread_def lower_def lower_char_def)


lemma clearToken_fields:
  "accessToken (clearToken c) = JNull"
  "sessionStorage (clearToken c) ''access_token'' = None"
  "\<not> client_isAuthenticated (clearToken c)"
  by (simp_all add: clearToken_def client_isAuthenticated_def)

text \<open>
  C2. A 401 response makes \<^verbatim>\<open>request\<close> clear the token (the field and the
  \<^verbatim>\<open>sessionStorage\<close> entry, whatever was held before) and reject with the fixed
  session-expired message; a later request is built as with no token held.
\<close>

theorem request_401_clears_token:
  assumes "fetch (API_BASE_URL @ endpoint) (request_config nts c options) = Responded r"
    and "status r = 401"
  shows "request nts fetch c endpoint options =
           (Inl (Error session_expired_message), clearToken c)
       \<and> accessToken (clearToken c) = JNull
       \<and> sessionStorage (clearToken c) ''access_token'' = None
       \<and> \<not> client_isAuthenticated (clearToken c)
       \<and> header_values ''Authorization'' (defaultHeaders nts (clearToken c)) = []"
  using assms
  by (simp add: request_def clearToken_fields header_values_default)

theorem request_401_clears_token_witness:
  "request nts0 (always (respond 401 JNull)) (client_with ''stale'')
     ''/api/pronote/homework'' no_options =
     (Inl (Error session_expired_message), anonymous_client)"
proof -
  have "always (respond 401 JNull) (API_BASE_URL @ ''/api/pronote/homework'')
          (request_config nts0 (client_with ''stale'') no_options) =
        Responded \<lparr>status = 401, json = Inr JNull\<rparr>"
    by (simp add: always_def respond_def)
  from request_401_clears_token
         [where fetch = "always (respond 401 JNull)" and r = "\<lparr>status = 401, json = Inr JNull\<rparr>",
          OF this]
  show ?thesis
    by (simp add: clearToken_def client_with_def anonymous_client_def)
qed

lemma request_failure_message:
  assumes "fetch (API_BASE_URL @ endpoint) (request_config nts c options) = Responded r"
    and "status r \<noteq> 401" and "\<not> ok r"
  shows "json r = Inl m \<Longrightarrow>
           request nts fetch c endpoint options = (Inl (Error (http_error_message (status r))), c)"
    and "json r = Inr d \<Longrightarrow> d \<noteq> JNull \<Longrightarrow> d \<noteq> JUndefined \<Longrightarrow>
           request nts fetch c endpoint options =
             (Inl (Error (to_string nts
                (js_or (prop_of d ''detail'')
                   (js_or (prop_of d ''error'') (JStr (http_error_message (status r))))))), c)"
proof -
  show "json r = Inl m \<Longrightarrow>
           request nts fetch c endpoint options = (Inl (Error (http_error_message (status r))), c)"
    using assms by (simp add: request_def error_text_def js_or_def)
next
  assume d: "json r = Inr d" "d \<noteq> JNull" "d \<noteq> JUndefined"
  then obtain x y where xy: "get_prop d ''detail'' = Inr x" "get_prop d ''error'' = Inr y"
    by (cases d) auto
  then show "request nts fetch c endpoint options =
             (Inl (Error (to_string nts
                (js_or (prop_of d ''detail'')
                   (js_or (prop_of d ''error'') (JStr (http_error_message (status r))))))), c)"
    using assms d by (simp add: request_def error_text_def js_or_def prop_of_def)
qed

text \<open>
  C9. An error response whose body is the JSON value \<^verbatim>\<open>null\<close>, here with status 500:
  \<^verbatim>\<open>errorData.detail\<close> is read on \<^verbatim>\<open>null\<close>, and the call rejects with that TypeError
  and not with the message \<^verbatim>\<open>Erreur HTTP 500\<close>.
\<close>

theorem request_null_error_body:
  "request nts0 (always (respond 500 JNull)) (client_with ''abc'') ''/api/pronote/grades''
     no_options = (Inl (NullDeref JNull ''detail''), client_with ''abc'')
   \<and> NullDeref JNull ''detail'' \<noteq> Error (http_error_message 500)"
  by (simp add: request_def always_def respond_def ok_def error_text_def)

section \<open>The data loaders\<close>

lemma request_transport_failure:
  "transport_failure outcome \<Longrightarrow>
   \<exists>e c'. request nts (always outcome) c endpoint options = (Inl e, c')"
  by (cases outcome)
    (auto simp: transport_failure_def request_def always_def split: sum.splits)

lemma request_ok:
  "ok r \<Longrightarrow> json r = Inr resp \<Longrightarrow>
   request nts (always (Responded r)) c endpoint options = (Inr resp, c)"
  by (auto simp: request_def always_def ok_def)

lemma load_list_failure:
  assumes "container dm \<noteq> None" and "call c = (Inl e, c')"
  shows "load_list container put field store display emptyMsg errorMsg call (c, dm) =
           (c', put (ErrorMessage errorMsg) (put Loading dm))"
  using assms by (auto simp: load_list_def)

lemma get_prop_defined:
  "v \<noteq> JNull \<Longrightarrow> v \<noteq> JUndefined \<Longrightarrow> get_prop v k = Inr (prop_of v k)"
  by (cases v) (auto simp: prop_of_def)

lemma load_list_no_data:
  assumes "container dm \<noteq> None" and "call c = (Inr resp, c')"
    and "resp \<noteq> JNull" and "resp \<noteq> JUndefined" and "no_data field resp"
  shows "load_list container put field store display emptyMsg errorMsg call (c, dm) =
           (c', put (EmptyState emptyMsg) (put Loading dm))"
  using assms
  by (auto simp: load_list_def no_data_def get_prop_defined Let_def)


lemma post_transport_failure:
  "transport_failure outcome \<Longrightarrow>
   \<exists>e c'. post nts (always outcome) c endpoint data = (Inl e, c')"
  unfolding post_def by (rule request_transport_failure)

lemma post_ok:
  "ok r \<Longrightarrow> json r = Inr resp \<Longrightarrow>
   post nts (always (Responded r)) c endpoint data = (Inr resp, c)"
  unfolding post_def by (rule request_ok)

lemma loadHomework_failure:
  assumes "homework_list dm \<noteq> None" and "transport_failure bad"
  shows "homework_list (snd (loadHomework nts (always bad) dh d1 d2 (c, dm))) =
           Some (ErrorMessage msg_homework_error)"
proof -
  obtain e c' where "getHomework nts (always bad) c d1 d2 = (Inl e, c')"
    unfolding getHomework_def using post_transport_failure [OF assms(2)] by blast
  with assms(1) show ?thesis
    unfolding loadHomework_def by (subst load_list_failure) auto
qed

lemma loadTimetable_failure:
  assumes "timetable_list dm \<noteq> None" and "transport_failure bad"
  shows "timetable_list (snd (loadTimetable nts (always bad) dt d1 d2 (c, dm))) =
           Some (ErrorMessage msg_timetable_error)"
proof -
  obtain e c' where "getTimetable nts (always bad) c d1 d2 = (Inl e, c')"
    unfolding getTimetable_def using post_transport_failure [OF assms(2)] by blast
  with assms(1) show ?thesis
    unfolding loadTimetable_def by (subst load_list_failure) auto
qed

lemma loadGrades_failure:
  assumes "grades_list dm \<noteq> None" and "transport_failure bad"
  shows "grades_list (snd (loadGrades nts (always bad) (c, dm))) =
           Some (ErrorMessage msg_grades_error)"
proof -
  obtain e c' where "getGrades nts (\<lambda>s. s) (always bad) c JNull = (Inl e, c')"
    unfolding getGrades_def
    using post_transport_failure [OF assms(2), of nts c "''/api/pronote/grades''" JUndefined]
    by (auto simp: Let_def)
  with assms(1) show ?thesis
    unfolding loadGrades_def by (subst load_list_failure) auto
qed

lemma loadHomework_no_data:
  assumes "homework_list dm \<noteq> None" and "ok r" and "json r = Inr resp"
    and "resp \<noteq> JNull" and "resp \<noteq> JUndefined" and "no_data ''homework'' resp"
  shows "homework_list (snd (loadHomework nts (always (Responded r)) dh d1 d2 (c, dm))) =
           Some (EmptyState msg_no_homework)"
proof -
  have "getHomework nts (always (Responded r)) c d1 d2 = (Inr resp, c)"
    unfolding getHomework_def using assms(2,3) by (rule post_ok)
  with assms show ?thesis
    unfolding loadHomework_def by (subst load_list_no_data) auto
qed

lemma loadTimetable_no_data:
  assumes "timetable_list dm \<noteq> None" and "ok r" and "json r = Inr resp"
    and "resp \<noteq> JNull" and "resp \<noteq> JUndefined" and "no_data ''timetable'' resp"
  shows "timetable_list (snd (loadTimetable nts (always (Responded r)) dt d1 d2 (c, dm))) =
           Some (EmptyState msg_no_lessons)"
proof -
  have "getTimetable nts (always (Responded r)) c d1 d2 = (Inr resp, c)"
    unfolding getTimetable_def using assms(2,3) by (rule post_ok)
  with assms show ?thesis
    unfolding loadTimetable_def by (subst load_list_no_data) auto
qed

lemma loadGrades_no_data:
  assumes "grades_list dm \<noteq> None" and "ok r" and "json r = Inr resp"
    and "resp \<noteq> JNull" and "resp \<noteq> JUndefined" and "no_data ''grades'' resp"
  shows "grades_list (snd (loadGrades nts (always (Responded r)) (c, dm))) =
           Some (EmptyState msg_no_grades)"
proof -
  have "getGrades nts (\<lambda>s. s) (always (Responded r)) c JNull = (Inr resp, c)"
    unfolding getGrades_def using post_ok [OF assms(2,3)] by (simp add: Let_def)
  with assms show ?thesis
    unfolding loadGrades_def by (subst load_list_no_data) auto
qed

text \<open>
  C3. For each of the three loaders, on a page that has the loader's container: a response
  (status 200..299, a JSON object as its body) without data, that is with a falsy
  \<^verbatim>\<open>success\<close> or a missing or falsy list field, ends in the empty state; a transport
  failure (no response, or a status outside 200..299) ends in the error message.
\<close>

theorem data_fetch_empty_or_error:
  assumes "homework_list dm \<noteq> None" and "timetable_list dm \<noteq> None"
    and "grades_list dm \<noteq> None"
    and "transport_failure bad"
    and "ok r" and "json r = Inr (JObj kvs)"
  shows "homework_list (snd (loadHomework nts (always bad) dh d1 d2 (c, dm))) =
           Some (ErrorMessage msg_homework_error)
       \<and> timetable_list (snd (loadTimetable nts (always bad) dt d1 d2 (c, dm))) =
           Some (ErrorMessage msg_timetable_error)
       \<and> grades_list (snd (loadGrades nts (always bad) (c, dm))) =
           Some (ErrorMessage msg_grades_error)
       \<and> (no_data ''homework'' (JObj kvs) \<longrightarrow>
            homework_list (snd (loadHomework nts (always (Responded r)) dh d1 d2 (c, dm))) =
              Some (EmptyState msg_no_homework))
       \<and> (no_data ''timetable'' (JObj kvs) \<longrightarrow>
            timetable_list (snd (loadTimetable nts (always (Responded r)) dt d1 d2 (c, dm))) =
              Some (EmptyState msg_no_lessons))
       \<and> (no_data ''grades'' (JObj kvs) \<longrightarrow>
            grades_list (snd (loadGrades nts (always (Responded r)) (c, dm))) =
              Some (EmptyState msg_no_grades))"
  using assms
  by (simp add: loadHomework_failure loadTimetable_failure loadGrades_failure
      loadHomework_no_data loadTimetable_no_data loadGrades_no_data)

theorem data_fetch_empty_or_error_witness:
  "homework_list (snd (loadHomework nts0 (always (NoResponse ''offline'')) no_display
      JNull JNull (client_with ''abc'', blank_page))) = Some (ErrorMessage msg_homework_error)
   \<and> timetable_list (snd (loadTimetable nts0 (always (NoResponse ''offline'')) no_display
      JNull JNull (client_with ''abc'', blank_page))) = Some (ErrorMessage msg_timetable_error)
   \<and> grades_list (snd (loadGrades nts0 (always (NoResponse ''offline''))
      (client_with ''abc'', blank_page))) = Some (ErrorMessage msg_grades_error)
   \<and> homework_list (snd (loadHomework nts0 (always (respond 200 (JObj [(''success'', JBool False)])))
      no_display JNull JNull (client_with ''abc'', blank_page))) = Some (EmptyState msg_no_homework)
   \<and> timetable_list (snd (loadTimetable nts0 (always (respond 200 (JObj [(''success'', JBool True)])))
      no_display JNull JNull (client_with ''abc'', blank_page))) = Some (EmptyState msg_no_lessons)
   \<and> grades_list (snd (loadGrades nts0 (always (respond 200 (JObj [(''success'', JBool False)])))
      (client_with ''abc'', blank_page))) = Some (EmptyState msg_no_grades)"
proof -
  have dm: "homework_list blank_page \<noteq> None" "timetable_list blank_page \<noteq> None"
    "grades_list blank_page \<noteq> None"
    by (simp_all add: blank_page_def)
  have bad: "transport_failure (NoResponse ''offline'')"
    by (simp add: transport_failure_def)
  have r: "ok \<lparr>status = 200, json = Inr (JObj [(''success'', JBool b)])\<rparr>"
    "json \<lparr>status = 200, json = Inr (JObj [(''success'', JBool b)])\<rparr> =
       Inr (JObj [(''success'', JBool b)])"
    for b
    by (simp_all add: ok_def)
  have nd: "no_data ''homework'' (JObj [(''success'', JBool False)])"
    "no_data ''grades'' (JObj [(''success'', JBool False)])"
    "no_data ''timetable'' (JObj [(''success'', JBool True)])"
    by (simp_all add: no_data_def prop_of_def)
  show ?thesis
    using data_fetch_empty_or_error [OF dm bad r [of False], of nts0 no_display JNull JNull
        "client_with ''abc''" no_display]
      data_fetch_empty_or_error [OF dm bad r [of True], of nts0 no_display JNull JNull
        "client_with ''abc''" no_display]
      nd
    by (simp add: respond_def)
qed

section \<open>Login\<close>

lemma trim_samples:
  "trim portal_url = portal_url" "trim ''alice'' = ''alice''"
  "trim ''Quels devoirs pour demain ?'' = ''Quels devoirs pour demain ?''"
  by code_simp+






lemma currentUser_shown [simp]:
  "currentUser (setLoading b a) = currentUser a"
  "currentUser (showError m a) = currentUser a"
  "currentUser (login_catch e a) = currentUser a"
  by (simp_all add: setLoading_def showError_def login_catch_def)

lemma elements_shown [simp]:
  "elements (setLoading b a) = elements a"
  "elements (showError m a) = elements a"
  by (simp_all add: setLoading_def showError_def)

lemma login_error_shown [simp]:
  "''login-error'' \<in> elements a \<Longrightarrow> login_error (showError m a) = Some m"
  "login_error (setLoading b a) = login_error a"
  by (simp_all add: setLoading_def showError_def)






section \<open>Logout\<close>

lemma logout_clears:
  "accessToken (snd (logout nts fetch c)) = JNull"
  "sessionStorage (snd (logout nts fetch c)) ''access_token'' = None"
  by (auto simp: logout_def clearToken_fields split: prod.splits sum.splits)

lemma logout_result:
  "fst (logout nts fetch c) =
     (case fst (post nts fetch c ''/api/auth/logout'' JUndefined) of
        Inl e \<Rightarrow> Inl e | Inr v \<Rightarrow> Inr JUndefined)"
  by (auto simp: logout_def split: prod.splits sum.splits)

lemma handleLogout_client:
  "fst (snd (handleLogout nts fetch (c, a, dm, ch))) = snd (logout nts fetch c)"
  by (auto simp: handleLogout_def Let_def split: prod.splits option.splits)

lemma onLogoutSuccess_currentUser:
  "onLogoutSuccess (a, dm, ch) = (e, a', dm', ch') \<Longrightarrow>
   currentUser a' = JNull \<and> elements a' = elements a"
  by (auto simp: onLogoutSuccess_def Let_def split: if_splits)

lemma handleLogout_currentUser:
  "currentUser (fst (snd (snd (handleLogout nts fetch (c, a, dm, ch))))) = JNull"
  "elements (fst (snd (snd (handleLogout nts fetch (c, a, dm, ch))))) = elements a"
proof -
  obtain e a' dm' ch' where s: "onLogoutSuccess (setLoading True a, dm, ch) = (e, a', dm', ch')"
    by (metis prod_cases4)
  from onLogoutSuccess_currentUser [OF s]
  have a': "currentUser a' = JNull" "elements a' = elements a" by simp_all
  from s a' show "currentUser (fst (snd (snd (handleLogout nts fetch (c, a, dm, ch))))) = JNull"
    by (cases e) (simp_all add: handleLogout_def Let_def split: prod.splits)
  from s a' show "elements (fst (snd (snd (handleLogout nts fetch (c, a, dm, ch))))) = elements a"
    by (cases e) (simp_all add: handleLogout_def Let_def split: prod.splits)
qed

lemma handleLogout_no_error:
  assumes "''dashboard-screen'' \<in> elements a" and "''login-screen'' \<in> elements a"
    and "''login-form-direct'' \<in> elements a" and "''login-form-cas'' \<in> elements a"
  shows "fst (handleLogout nts fetch (c, a, dm, ch)) = None"
  using assms
  by (simp add: handleLogout_def onLogoutSuccess_def Let_def split: prod.splits)

lemma handleLogout_missing_form:
  assumes "''dashboard-screen'' \<in> elements a" and "''login-screen'' \<in> elements a"
    and "''login-form-direct'' \<notin> elements a \<or> ''login-form-cas'' \<notin> elements a"
  shows "fst (handleLogout nts fetch (c, a, dm, ch)) = Some (NullDeref JNull ''reset'')"
  using assms
  by (auto simp: handleLogout_def onLogoutSuccess_def Let_def split: prod.splits)

text \<open>
  C5, as amended. \<^verbatim>\<open>APIClient.logout\<close> clears the token whatever the request does, on a
  first call and on a second one, but it has no \<^verbatim>\<open>catch\<close>: it rejects with the error of
  the request when the request fails. The error is swallowed one level up, by
  \<^verbatim>\<open>AuthManager.handleLogout\<close>, which leaves no token and no current user whatever the
  request does; on a page that has the two screens and the two login forms it does not
  reject, on a first call and on a second one.
\<close>

theorem logout_clears_token:
  "accessToken (snd (logout nts fetch c)) = JNull
   \<and> sessionStorage (snd (logout nts fetch c)) ''access_token'' = None
   \<and> accessToken (snd (logout nts fetch' (snd (logout nts fetch c)))) = JNull
   \<and> sessionStorage (snd (logout nts fetch' (snd (logout nts fetch c)))) ''access_token'' = None
   \<and> fst (logout nts fetch c) =
        (case fst (post nts fetch c ''/api/auth/logout'' JUndefined) of
           Inl e \<Rightarrow> Inl e | Inr v \<Rightarrow> Inr JUndefined)
   \<and> accessToken (fst (snd (handleLogout nts fetch (c, a, dm, ch)))) = JNull
   \<and> sessionStorage (fst (snd (handleLogout nts fetch (c, a, dm, ch)))) ''access_token'' = None
   \<and> currentUser (fst (snd (snd (handleLogout nts fetch (c, a, dm, ch))))) = JNull
   \<and> accessToken (fst (snd (handleLogout nts fetch' (snd (handleLogout nts fetch (c, a, dm, ch))))))
        = JNull
   \<and> sessionStorage (fst (snd (handleLogout nts fetch' (snd (handleLogout nts fetch (c, a, dm, ch))))))
        ''access_token'' = None
   \<and> (''dashboard-screen'' \<in> elements a \<and> ''login-screen'' \<in> elements a
        \<and> ''login-form-direct'' \<in> elements a \<and> ''login-form-cas'' \<in> elements a \<longrightarrow>
      fst (handleLogout nts fetch (c, a, dm, ch)) = None
      \<and> fst (handleLogout nts fetch' (snd (handleLogout nts fetch (c, a, dm, ch)))) = None)"
proof -
  obtain e c1 a1 dm1 ch1 where
    first: "handleLogout nts fetch (c, a, dm, ch) = (e, c1, a1, dm1, ch1)"
    by (metis prod_cases5)
  have c1: "c1 = snd (logout nts fetch c)"
    using handleLogout_client [of nts fetch c a dm ch] first by simp
  have a1: "currentUser a1 = JNull" "elements a1 = elements a"
    using handleLogout_currentUser [of nts fetch c a dm ch] first by simp_all
  have second: "accessToken (fst (snd (handleLogout nts fetch' (c1, a1, dm1, ch1)))) = JNull"
    "sessionStorage (fst (snd (handleLogout nts fetch' (c1, a1, dm1, ch1)))) ''access_token'' = None"
    by (simp_all add: handleLogout_client logout_clears)
  have quiet: "fst (handleLogout nts fetch (c, a, dm, ch)) = None
      \<and> fst (handleLogout nts fetch' (c1, a1, dm1, ch1)) = None"
    if "''dashboard-screen'' \<in> elements a \<and> ''login-screen'' \<in> elements a
        \<and> ''login-form-direct'' \<in> elements a \<and> ''login-form-cas'' \<in> elements a"
    using that a1(2) by (simp add: handleLogout_no_error)
  show ?thesis
    using first c1 a1 second quiet
    by (simp add: logout_clears logout_result [symmetric])
qed

theorem logout_clears_token_witness:
  "fst (handleLogout nts0 (always (NoResponse ''Failed to fetch''))
          (client_with ''abc'', login_page\<lparr>currentUser := JStr ''Alice''\<rparr>, blank_page, no_chat)) = None
   \<and> fst (handleLogout nts0 (always (respond 401 JNull))
          (snd (handleLogout nts0 (always (NoResponse ''Failed to fetch''))
             (client_with ''abc'', login_page\<lparr>currentUser := JStr ''Alice''\<rparr>, blank_page, no_chat))))
       = None
   \<and> accessToken (fst (snd (handleLogout nts0 (always (NoResponse ''Failed to fetch''))
          (client_with ''abc'', login_page\<lparr>currentUser := JStr ''Alice''\<rparr>, blank_page, no_chat))))
       = JNull"
  using logout_clears_token [of nts0 "always (NoResponse ''Failed to fetch'')" "client_with ''abc''"
      "always (respond 401 JNull)" "login_page\<lparr>currentUser := JStr ''Alice''\<rparr>" blank_page no_chat]
  by (simp add: login_page_def)

text \<open>
  C5 as stated fails for \<^verbatim>\<open>APIClient.logout\<close>: when the network is down the call rejects
  with the error of \<^verbatim>\<open>fetch\<close>, after it has cleared the token.
\<close>

theorem logout_clears_token_counterexample:
  "logout nts0 (always (NoResponse ''Failed to fetch'')) (client_with ''abc'') =
     (Inl (FetchFailed ''Failed to fetch''), anonymous_client)"
  by (simp add: logout_def post_def request_def always_def clearToken_def client_with_def
      anonymous_client_def)

section \<open>The authentication predicate\<close>

lemma isAuthenticated_false_cases:
  "\<not> isAuthenticated (new_APIClient st) (new_AuthManager page)"
  "\<not> isAuthenticated c (a\<lparr>currentUser := JNull\<rparr>)"
  "\<not> isAuthenticated (clearToken c) a"
  by (simp_all add: isAuthenticated_def client_isAuthenticated_def new_AuthManager_def
      clearToken_def)

text \<open>
  C6. A login whose response reports success with a token and no \<^verbatim>\<open>student\<close> field:
  \<^verbatim>\<open>handleDirectLogin\<close> saves the token and records \<^verbatim>\<open>undefined\<close> as the current user,
  \<^verbatim>\<open>onLoginSuccess\<close> throws on it and the page stays on the login screen with an error
  shown. No profile is held, and \<^verbatim>\<open>isAuthenticated()\<close> is true: the test
  \<^verbatim>\<open>this.currentUser !== null\<close> lets \<^verbatim>\<open>undefined\<close> through.
\<close>

theorem isAuthenticated_undefined_profile:
  "handleDirectLogin nts0
     (always (respond 200 (JObj [(''success'', JBool True), (''access_token'', JStr ''abc123'')])))
     portal_url ''alice'' ''secret'' (JNum (Fin 3)) (anonymous_client, login_page, no_chat) =
     (client_with ''abc123'',
      login_page\<lparr>currentUser := JUndefined,
        login_error := Some (error_message (NullDeref JUndefined ''student_name''))\<rparr>,
      no_chat)
   \<and> isAuthenticated (client_with ''abc123'')
        (login_page\<lparr>currentUser := JUndefined,
           login_error := Some (error_message (NullDeref JUndefined ''student_name''))\<rparr>)"
  by (simp add: handleDirectLogin_def loginDirect_def post_def request_def always_def
      respond_def ok_def login_response_def trim_samples
      saveToken_def anonymous_client_def client_with_def login_page_def
      onLoginSuccess_def setLoading_def login_catch_def showError_def
      isAuthenticated_def client_isAuthenticated_def)
    (simp add: portal_url_def)

section \<open>Chat\<close>



















section \<open>Grades\<close>

lemma parse_float_15: "parse_float ''15'' = Fin 15"
  by code_simp

lemma parse_float_20: "parse_float ''20'' = Fin 20"
  by code_simp

lemma average_math: "average nts [grade_math] = Inr (Fin 15)"
  by (simp add: average_def grade_math_def parseFloat_def parse_float_15 parse_float_20
      jadd_def jmul_def jdiv_def)

lemma filter_valid_scenario: "filter_valid [grade_math, grade_art] = Inr [grade_math]"
  by (simp add: grade_math_def grade_art_def)

text \<open>
  C8. For the grades \<^verbatim>\<open>[{subject:"Math", grade:"15", out_of:"20"}, {subject:"Art", grade:null}]\<close>
  the average is computed from the first entry alone and is exactly 15 (out of 20), and
  \<^verbatim>\<open>displayGrades\<close> does not throw: it shows the summary with that average over one
  grade, and the first entry.
\<close>

theorem displayGrades_scenario:
  "filter_valid [grade_math, grade_art] = Inr [grade_math]
   \<and> average nts [grade_math] = Inr (Fin 15)
   \<and> displayGrades nts (JArr [grade_math, grade_art]) (dm\<lparr>grades_list := Some v\<rparr>) =
       (None,
        dm\<lparr>grades_list := Some (Content
          [Summary (Fin 15) 1,
           GradeItem (JStr ''Math'') (JStr ''15'') (JStr ''20'') (JNum (Fin 1))
             JUndefined JUndefined])\<rparr>)"
proof -
  have items: "grade_items [grade_math, grade_art] [Summary (Fin 15) (Suc 0)] =
      (None, [Summary (Fin 15) (Suc 0),
              GradeItem (JStr ''Math'') (JStr ''15'') (JStr ''20'') (JNum (Fin 1))
                JUndefined JUndefined])"
    by (simp add: grade_item_def prop_of_def js_or_def grade_math_def grade_art_def)
  show ?thesis
    by (simp add: displayGrades_def is_number_zero_def filter_valid_scenario average_math items
        del: filter_valid.simps grade_items.simps)
qed








section \<open>Blank fields\<close>

text \<open>
  A field that holds only white space, here two no-break spaces, is empty once trimmed:
  the login handler asks for the fields and sends nothing, and the chat sends nothing.
\<close>

lemma trim_no_break_spaces: "trim [CHR 0xC2, CHR 0xA0, CHR 0xC2, CHR 0xA0] = []"
  by code_simp

lemma handleDirectLogin_blank_field:
  "handleDirectLogin nts fetch [CHR 0xC2, CHR 0xA0, CHR 0xC2, CHR 0xA0] user pw kind (c, a, ch) =
     (c, showError msg_fill_all_fields a, ch)"
  by (simp add: handleDirectLogin_def trim_no_break_spaces)

lemma sendMessage_blank_input:
  "chat_input ch = [CHR 0xC2, CHR 0xA0, CHR 0xC2, CHR 0xA0] \<Longrightarrow>
   sendMessage nts fetch bc (c, ch) = (None, c, ch)"
  by (simp add: sendMessage_def trim_no_break_spaces)

end
